theory Spec2Isabelle
  imports Complex_Main
begin

section \<open>JavaScript values used by the real-time layer\<close>

text \<open>
  The socket layer (\<^verbatim>\<open>initialize\<close> and the four \<^verbatim>\<open>emitTo...\<close> utilities) handles
  values that arrive from clients and from decoded tokens without checking their type:
  a job id, a user id, a role or a radius may be \<^verbatim>\<open>undefined\<close>, \<^verbatim>\<open>null\<close>, a
  boolean, a number or a string. Numbers in this position are identifiers and radii and
  are modelled as integers.
\<close>

datatype jsval = JUndefined | JNull | JBool bool | JNum int | JStr string

text \<open>Truthiness, as tested by \<^verbatim>\<open>!token\<close>.\<close>

fun truthy :: "jsval \<Rightarrow> bool" where
  "truthy JUndefined = False"
| "truthy JNull = False"
| "truthy (JBool b) = b"
| "truthy (JNum n) = (n \<noteq> 0)"
| "truthy (JStr s) = (s \<noteq> [])"

text \<open>
  Decimal rendering of an integer, as \<^verbatim>\<open>Number.prototype.toString\<close> prints every
  integer of magnitude below \<open>10^21\<close> (which covers every coordinate bucket, and where
  negative zero prints as \<^verbatim>\<open>0\<close>).
\<close>

definition digit_char :: "nat \<Rightarrow> char" where
  "digit_char d = ''0123456789'' ! d"

fun digits :: "nat \<Rightarrow> string" where
  "digits n = (if n < 10 then [digit_char n] else digits (n div 10) @ [digit_char (n mod 10)])"

declare digits.simps [simp del]

definition num_to_string :: "int \<Rightarrow> string" where
  "num_to_string i = (if i < 0 then CHR ''-'' # digits (nat (- i)) else digits (nat i))"

text \<open>String conversion inside a template literal \<^verbatim>\<open>`...${v}...`\<close>.\<close>

fun to_string :: "jsval \<Rightarrow> string" where
  "to_string JUndefined = ''undefined''"
| "to_string JNull = ''null''"
| "to_string (JBool b) = (if b then ''true'' else ''false'')"
| "to_string (JNum n) = num_to_string n"
| "to_string (JStr s) = s"

text \<open>
  \<^verbatim>\<open>Math.round\<close> on a finite number: the nearest integer, a tie going towards
  \<open>+\<infinity>\<close>. Coordinates are finite numbers, modelled as reals (every finite double is one).
\<close>

definition js_round :: "real \<Rightarrow> int" where
  "js_round x = \<lfloor>x + 1 / 2\<rfloor>"

text \<open>Destructuring default \<^verbatim>\<open>radius = 25\<close>: only \<^verbatim>\<open>undefined\<close> takes the default.\<close>

definition radius_or_default :: "jsval \<Rightarrow> jsval" where
  "radius_or_default r = (if r = JUndefined then JNum 25 else r)"

text \<open>
  \<^verbatim>\<open>`location:${Math.round(lat)}:${Math.round(lng)}:${radius}`\<close>, the room name
  computed by both the \<^verbatim>\<open>subscribe-new-jobs\<close> handler and \<^verbatim>\<open>emitToLocation\<close>.
\<close>

definition locationKey :: "real \<Rightarrow> real \<Rightarrow> jsval \<Rightarrow> string" where
  "locationKey lat lng radius =
     ''location:'' @ num_to_string (js_round lat) @ '':'' @ num_to_string (js_round lng)
       @ '':'' @ to_string radius"

text \<open>Reading a decimal rendering back, used to show that the rendering loses nothing.\<close>

definition digit_val :: "char \<Rightarrow> nat" where
  "digit_val c = length (takeWhile (\<lambda>d. d \<noteq> c) ''0123456789'')"

fun undigits :: "string \<Rightarrow> nat" where
  "undigits [] = 0"
| "undigits (c # cs) = digit_val c * 10 ^ length cs + undigits cs"

section \<open>Exceptions and collaborators\<close>

text \<open>
  An exception raised while a handler runs: a reference to an identifier that is not bound,
  a type error (destructuring \<^verbatim>\<open>undefined\<close>, reading a property of \<^verbatim>\<open>undefined\<close>), or
  the rejection of a promise returned by a collaborator.
\<close>

datatype js_error = ReferenceError string | TypeError string | Rejected string

text \<open>The object passed to \<^verbatim>\<open>ChatService.saveMessage\<close>, and the record it resolves to.\<close>

record message_draft =
  draft_jobId :: jsval
  draft_senderId :: jsval
  draft_senderName :: jsval
  draft_message :: jsval
  draft_type :: jsval
  draft_timestamp :: nat

record chat_message = message_draft +
  message_id :: jsval

datatype notification_data =
    ChatMessageData jsval jsval jsval
  | JobUpdateData jsval jsval
  | NewBidData jsval jsval jsval jsval jsval

record notification =
  n_title :: string
  n_body :: jsval
  n_data :: notification_data

record status_meta =
  meta_driverId :: jsval
  meta_eta :: jsval
  meta_notes :: jsval

text \<open>The object passed to \<^verbatim>\<open>JobService.placeBid\<close>; \<open>bid_eta\<close> is the value the handler
  wraps as \<^verbatim>\<open>new Date(eta)\<close>.\<close>

record bid_draft =
  bid_jobId :: jsval
  bid_driverId :: jsval
  bid_amount :: jsval
  bid_eta :: jsval
  bid_notes :: jsval

text \<open>
  The modules \<^verbatim>\<open>chatService\<close>, \<^verbatim>\<open>jobService\<close> and \<^verbatim>\<open>notificationService\<close> are
  collaborators whose code is not part of the socket layer. Each awaited call either
  resolves to a value (\<open>Inr\<close>) or rejects (\<open>Inl\<close>); what a call answers is a parameter.
\<close>

record chat_service =
  verifyChatAccess :: "jsval \<Rightarrow> jsval \<Rightarrow> jsval \<Rightarrow> js_error + bool"
  getRecentMessages :: "jsval \<Rightarrow> js_error + chat_message list"
  saveMessage :: "message_draft \<Rightarrow> js_error + chat_message"
  getOtherParticipants :: "jsval \<Rightarrow> jsval \<Rightarrow> js_error + jsval list"

record job_service =
  verifyDriverJobAccess :: "jsval \<Rightarrow> jsval \<Rightarrow> js_error + bool"
  updateDriverLocation :: "jsval \<Rightarrow> jsval \<Rightarrow> jsval \<Rightarrow> jsval \<Rightarrow> js_error + unit"
  updateJobStatus :: "jsval \<Rightarrow> jsval \<Rightarrow> status_meta \<Rightarrow> js_error + unit"
  getJobCustomerId :: "jsval \<Rightarrow> js_error + jsval"
  canDriverBid :: "jsval \<Rightarrow> jsval \<Rightarrow> js_error + bool"
  placeBid :: "bid_draft \<Rightarrow> js_error + jsval"

text \<open>
  The module-level bindings the handlers close over. \<^verbatim>\<open>JobService\<close> is bound by a
  \<^verbatim>\<open>require\<close>. The \<^verbatim>\<open>require\<close> lines of \<^verbatim>\<open>ChatService\<close> and \<^verbatim>\<open>NotificationService\<close>
  are commented out in the file, so whether these two identifiers are bound is part of
  the environment: \<open>None\<close> (\<open>False\<close>) is the file as it stands, where evaluating the
  identifier raises a \<^verbatim>\<open>ReferenceError\<close>; \<open>Some cs\<close> (\<open>True\<close>) is the file with the
  binding in place. \<open>jwt_verify\<close> is \<^verbatim>\<open>jwt.verify(token, process.env.JWT_SECRET)\<close> on a
  string: the decoded payload, or the exception it throws.
\<close>

record module_env =
  ChatService :: "chat_service option"
  JobService :: job_service
  NotificationService :: bool
  jwt_verify :: "string \<Rightarrow> js_error + (string \<rightharpoonup> jsval)"

section \<open>Sockets, rooms and what a handler does\<close>

type_synonym socket_id = nat
type_synonym room = string

record location_preference =
  pref_lat :: real
  pref_lng :: real
  pref_radius :: jsval

text \<open>
  The properties the code stores on a socket object. \<open>currentChatRoom\<close> is read by the
  \<^verbatim>\<open>disconnect\<close> handler; \<open>None\<close> is the property being absent.
\<close>

record socket_data =
  userId :: jsval
  userRole :: jsval
  userName :: jsval
  locationPreference :: "location_preference option"
  currentChatRoom :: "room option"

text \<open>
  The server: the connected sockets (those that passed the middleware and on which the
  \<^verbatim>\<open>connection\<close> callback registered the handlers) and the adapter's room table, a room
  that was never joined being the empty set. The room the library keeps for every socket
  under the socket's own id is left out: no code addresses it.
\<close>

record server =
  sockets :: "socket_id \<rightharpoonup> socket_data"
  rooms :: "room \<Rightarrow> socket_id set"

definition initial_server :: server where
  "initial_server = \<lparr>sockets = Map.empty, rooms = (\<lambda>r. {})\<rparr>"

datatype payload =
    ErrorMessage string
  | ChatHistory "chat_message list"
  | UserPresence jsval jsval nat
  | NewMessage chat_message
  | TypingNotice jsval jsval jsval nat
  | DriverLocation jsval jsval jsval jsval nat
  | JobUpdate jsval jsval jsval jsval jsval jsval nat
  | External string

datatype service_call =
    VerifyChatAccess jsval jsval jsval
  | GetRecentMessages jsval
  | SaveMessage message_draft
  | GetOtherParticipants jsval jsval
  | SendPushNotification jsval notification
  | VerifyDriverJobAccess jsval jsval
  | UpdateDriverLocation jsval jsval jsval jsval
  | UpdateJobStatus jsval jsval status_meta
  | GetJobCustomerId jsval
  | CanDriverBid jsval jsval
  | PlaceBidCall bid_draft

text \<open>
  What the outside observes of a handler, in order: an event emitted to a set of sockets
  (the recipients as computed at the time of the \<^verbatim>\<open>emit\<close>), a call made to a
  collaborator (logged when it is made, whether it then resolves or rejects), and the
  refusal of a handshake (\<^verbatim>\<open>next(new Error(msg))\<close>).
\<close>

datatype action =
    Emit "socket_id set" string payload
  | Call service_call
  | ConnectError socket_id string

text \<open>The Socket.IO operations the code uses.\<close>

definition socket_join :: "server \<Rightarrow> socket_id \<Rightarrow> room \<Rightarrow> server" where
  "socket_join st sid r = st\<lparr>rooms := (rooms st)(r := insert sid (rooms st r))\<rparr>"

definition socket_leave :: "server \<Rightarrow> socket_id \<Rightarrow> room \<Rightarrow> server" where
  "socket_leave st sid r = st\<lparr>rooms := (rooms st)(r := rooms st r - {sid})\<rparr>"

text \<open>On a disconnect the library removes the socket from every room before the
  \<^verbatim>\<open>disconnect\<close> listeners run.\<close>

definition leave_all :: "server \<Rightarrow> socket_id \<Rightarrow> server" where
  "leave_all st sid = st\<lparr>rooms := (\<lambda>r. rooms st r - {sid})\<rparr>"

definition socket_emit :: "socket_id \<Rightarrow> string \<Rightarrow> payload \<Rightarrow> action" where
  "socket_emit sid ev p = Emit {sid} ev p"

definition socket_to_emit :: "server \<Rightarrow> socket_id \<Rightarrow> room \<Rightarrow> string \<Rightarrow> payload \<Rightarrow> action" where
  "socket_to_emit st sid r ev p = Emit (rooms st r - {sid}) ev p"

definition io_to_emit :: "server \<Rightarrow> room \<Rightarrow> string \<Rightarrow> payload \<Rightarrow> action" where
  "io_to_emit st r ev p = Emit (rooms st r) ev p"

text \<open>Whether a socket is among the recipients of an emit of the given event.\<close>

fun receives :: "socket_id \<Rightarrow> string \<Rightarrow> action \<Rightarrow> bool" where
  "receives sid ev (Emit R e p) = (e = ev \<and> sid \<in> R)"
| "receives sid ev (Call c) = False"
| "receives sid ev (ConnectError s m) = False"

definition delivered :: "socket_id \<Rightarrow> string \<Rightarrow> action list \<Rightarrow> bool" where
  "delivered sid ev acts = list_ex (receives sid ev) acts"


section \<open>Inbound events\<close>

text \<open>
  The payload of a client event is whatever the client sent. \<open>None\<close> stands for a payload
  that is \<^verbatim>\<open>undefined\<close> or \<^verbatim>\<open>null\<close>, on which the destructuring at the head of a
  handler throws; a field the client left out is \<open>JUndefined\<close>.
\<close>

record send_message_data =
  sm_jobId :: jsval
  sm_message :: jsval
  sm_type :: jsval

record typing_data =
  ty_jobId :: jsval
  ty_isTyping :: jsval

record location_data =
  loc_jobId :: jsval
  loc_lat :: jsval
  loc_lng :: jsval

record status_data =
  su_jobId :: jsval
  su_status :: jsval
  su_eta :: jsval
  su_notes :: jsval

record bid_data =
  pb_jobId :: jsval
  pb_amount :: jsval
  pb_eta :: jsval
  pb_notes :: jsval

record subscribe_data =
  sub_lat :: real
  sub_lng :: real
  sub_radius :: jsval

datatype event =
    JoinChat jsval
  | LeaveChat jsval
  | SendMessage "send_message_data option"
  | Typing "typing_data option"
  | UpdateLocation "location_data option"
  | JobStatusUpdate "status_data option"
  | PlaceBid "bid_data option"
  | SubscribeNewJobs "subscribe_data option"

text \<open>
  What reaches the server: a handshake carrying \<^verbatim>\<open>socket.handshake.auth.token\<close>, a client
  event on a socket at a time \<open>now\<close> (the value of \<^verbatim>\<open>new Date()\<close> in the handler), and the
  transport-level disconnect of a socket.
\<close>

datatype input =
    Connect socket_id jsval
  | Event socket_id nat event
  | Disconnect socket_id nat

section \<open>Handshake\<close>

definition field :: "(string \<rightharpoonup> jsval) \<Rightarrow> string \<Rightarrow> jsval" where
  "field obj k = (case obj k of None \<Rightarrow> JUndefined | Some v \<Rightarrow> v)"

text \<open>
  The \<^verbatim>\<open>io.use\<close> middleware. \<open>Inl msg\<close> is \<^verbatim>\<open>next(new Error(msg))\<close>, \<open>Inr\<close> the socket
  properties set before \<^verbatim>\<open>next()\<close>. \<^verbatim>\<open>jwt.verify\<close> throws on a token that is not a string.
\<close>

definition authenticate :: "module_env \<Rightarrow> jsval \<Rightarrow> string + socket_data" where
  "authenticate env token =
     (if \<not> truthy token then Inl ''Authentication error: No token provided''
      else case token of
        JStr s \<Rightarrow>
          (case jwt_verify env s of
             Inl e \<Rightarrow> Inl ''Authentication error: Invalid token''
           | Inr decoded \<Rightarrow>
               Inr \<lparr>userId = field decoded ''userId'', userRole = field decoded ''role'',
                    userName = field decoded ''name'', locationPreference = None,
                    currentChatRoom = None\<rparr>)
      | _ \<Rightarrow> Inl ''Authentication error: Invalid token'')"

text \<open>The \<^verbatim>\<open>connection\<close> callback: the socket joins \<^verbatim>\<open>`user:${socket.userId}`\<close>.\<close>

definition on_connection :: "server \<Rightarrow> socket_id \<Rightarrow> socket_data \<Rightarrow> server" where
  "on_connection st sid sock =
     socket_join (st\<lparr>sockets := (sockets st)(sid \<mapsto> sock)\<rparr>) sid (''user:'' @ to_string (userId sock))"

section \<open>Handlers\<close>

text \<open>
  A handler whose body is a \<^verbatim>\<open>try\<close> block is modelled in two steps: the block, which
  returns what it did and the exception that ended it, if any; and the handler, which
  adds what the \<^verbatim>\<open>catch\<close> clause emits.
\<close>

definition join_chat_try ::
  "module_env \<Rightarrow> server \<Rightarrow> socket_id \<Rightarrow> socket_data \<Rightarrow> nat \<Rightarrow> jsval
     \<Rightarrow> server \<times> action list \<times> js_error option" where
  "join_chat_try env st sid sock now jobId =
     (case ChatService env of
        None \<Rightarrow> (st, [], Some (ReferenceError ''ChatService is not defined''))
      | Some cs \<Rightarrow>
          (let access = Call (VerifyChatAccess jobId (userId sock) (userRole sock)) in
           case verifyChatAccess cs jobId (userId sock) (userRole sock) of
             Inl e \<Rightarrow> (st, [access], Some e)
           | Inr hasAccess \<Rightarrow>
               if \<not> hasAccess
               then (st, [access, socket_emit sid ''error'' (ErrorMessage ''Access denied to this chat'')], None)
               else
                 (let roomName = ''chat:'' @ to_string jobId;
                      st1 = socket_join st sid roomName;
                      history = Call (GetRecentMessages jobId) in
                  case getRecentMessages cs jobId of
                    Inl e \<Rightarrow> (st1, [access, history], Some e)
                  | Inr recentMessages \<Rightarrow>
                      (st1,
                       [access, history,
                        socket_emit sid ''chat-history'' (ChatHistory recentMessages),
                        socket_to_emit st1 sid roomName ''user-joined''
                          (UserPresence (userId sock) (userName sock) now)],
                       None))))"

definition on_join_chat ::
  "module_env \<Rightarrow> server \<Rightarrow> socket_id \<Rightarrow> socket_data \<Rightarrow> nat \<Rightarrow> jsval \<Rightarrow> server \<times> action list" where
  "on_join_chat env st sid sock now jobId =
     (case join_chat_try env st sid sock now jobId of
        (st1, acts, None) \<Rightarrow> (st1, acts)
      | (st1, acts, Some e) \<Rightarrow>
          (st1, acts @ [socket_emit sid ''error'' (ErrorMessage ''Failed to join chat'')]))"

definition on_leave_chat ::
  "server \<Rightarrow> socket_id \<Rightarrow> socket_data \<Rightarrow> nat \<Rightarrow> jsval \<Rightarrow> server \<times> action list" where
  "on_leave_chat st sid sock now jobId =
     (let roomName = ''chat:'' @ to_string jobId;
          st1 = socket_leave st sid roomName
      in (st1, [socket_to_emit st1 sid roomName ''user-left''
                  (UserPresence (userId sock) (userName sock) now)]))"

text \<open>Destructuring default \<^verbatim>\<open>type = 'text'\<close>.\<close>

definition type_or_default :: "jsval \<Rightarrow> jsval" where
  "type_or_default t = (if t = JUndefined then JStr ''text'' else t)"

text \<open>
  \<^verbatim>\<open>message.length > 50 ? message.substring(0, 50) + '...' : message\<close>: reading
  \<^verbatim>\<open>length\<close> throws on \<^verbatim>\<open>undefined\<close> and \<^verbatim>\<open>null\<close>; a boolean or a number has no
  \<^verbatim>\<open>length\<close> and is passed on as it is.
\<close>

fun notification_body :: "jsval \<Rightarrow> js_error + jsval" where
  "notification_body (JStr s) = Inr (JStr (if length s > 50 then take 50 s @ ''...'' else s))"
| "notification_body JUndefined = Inl (TypeError ''Cannot read properties of undefined'')"
| "notification_body JNull = Inl (TypeError ''Cannot read properties of null'')"
| "notification_body v = Inr v"

definition chat_notification :: "socket_data \<Rightarrow> jsval \<Rightarrow> jsval \<Rightarrow> notification" where
  "chat_notification sock jobId body =
     \<lparr>n_title = ''New message from '' @ to_string (userName sock), n_body = body,
      n_data = ChatMessageData jobId (userId sock) (userName sock)\<rparr>"

text \<open>
  The \<^verbatim>\<open>forEach\<close> over the other participants (given by their user ids). The callee
  \<^verbatim>\<open>NotificationService.sendPushNotification\<close> is evaluated before its arguments; the call
  itself is not awaited, so that its failure never reaches the \<^verbatim>\<open>catch\<close> clause.
\<close>

fun notify_participants ::
  "bool \<Rightarrow> socket_data \<Rightarrow> jsval \<Rightarrow> jsval \<Rightarrow> jsval list \<Rightarrow> action list \<times> js_error option" where
  "notify_participants bound sock jobId message [] = ([], None)"
| "notify_participants bound sock jobId message (p # ps) =
     (if \<not> bound then ([], Some (ReferenceError ''NotificationService is not defined''))
      else case notification_body message of
        Inl e \<Rightarrow> ([], Some e)
      | Inr body \<Rightarrow>
          (case notify_participants bound sock jobId message ps of
             (acts, err) \<Rightarrow>
               (Call (SendPushNotification p (chat_notification sock jobId body)) # acts, err)))"

definition send_message_try ::
  "module_env \<Rightarrow> server \<Rightarrow> socket_id \<Rightarrow> socket_data \<Rightarrow> nat \<Rightarrow> send_message_data option
     \<Rightarrow> action list \<times> js_error option" where
  "send_message_try env st sid sock now data =
     (case data of
        None \<Rightarrow> ([], Some (TypeError ''Cannot destructure''))
      | Some d \<Rightarrow>
     (case ChatService env of
        None \<Rightarrow> ([], Some (ReferenceError ''ChatService is not defined''))
      | Some cs \<Rightarrow>
          (let jobId = sm_jobId d; message = sm_message d; type = type_or_default (sm_type d);
               access = Call (VerifyChatAccess jobId (userId sock) (userRole sock)) in
           case verifyChatAccess cs jobId (userId sock) (userRole sock) of
             Inl e \<Rightarrow> ([access], Some e)
           | Inr hasAccess \<Rightarrow>
               if \<not> hasAccess
               then ([access, socket_emit sid ''error'' (ErrorMessage ''Access denied'')], None)
               else
                 (let draft = \<lparr>draft_jobId = jobId, draft_senderId = userId sock,
                                draft_senderName = userName sock, draft_message = message,
                                draft_type = type, draft_timestamp = now\<rparr>;
                      save = Call (SaveMessage draft) in
                  case saveMessage cs draft of
                    Inl e \<Rightarrow> ([access, save], Some e)
                  | Inr chatMessage \<Rightarrow>
                      (let sent = [access, save,
                                   io_to_emit st (''chat:'' @ to_string jobId) ''new-message''
                                     (NewMessage chatMessage),
                                   Call (GetOtherParticipants jobId (userId sock))] in
                       case getOtherParticipants cs jobId (userId sock) of
                         Inl e \<Rightarrow> (sent, Some e)
                       | Inr otherParticipants \<Rightarrow>
                           (case notify_participants (NotificationService env) sock jobId
                                   message otherParticipants of
                              (acts, err) \<Rightarrow> (sent @ acts, err)))))))"

definition on_send_message ::
  "module_env \<Rightarrow> server \<Rightarrow> socket_id \<Rightarrow> socket_data \<Rightarrow> nat \<Rightarrow> send_message_data option
     \<Rightarrow> server \<times> action list" where
  "on_send_message env st sid sock now data =
     (case send_message_try env st sid sock now data of
        (acts, None) \<Rightarrow> (st, acts)
      | (acts, Some e) \<Rightarrow>
          (st, acts @ [socket_emit sid ''error'' (ErrorMessage ''Failed to send message'')]))"

text \<open>The \<^verbatim>\<open>typing\<close> handler has no \<^verbatim>\<open>try\<close>: the exception of a failed destructuring
  leaves the handler.\<close>

definition on_typing ::
  "server \<Rightarrow> socket_id \<Rightarrow> socket_data \<Rightarrow> nat \<Rightarrow> typing_data option
     \<Rightarrow> js_error + server \<times> action list" where
  "on_typing st sid sock now data =
     (case data of
        None \<Rightarrow> Inl (TypeError ''Cannot destructure'')
      | Some d \<Rightarrow>
          Inr (st, [socket_to_emit st sid (''chat:'' @ to_string (ty_jobId d)) ''typing''
                      (TypingNotice (userId sock) (userName sock) (ty_isTyping d) now)]))"

definition update_location_try ::
  "module_env \<Rightarrow> server \<Rightarrow> socket_id \<Rightarrow> socket_data \<Rightarrow> nat \<Rightarrow> location_data option
     \<Rightarrow> action list \<times> js_error option" where
  "update_location_try env st sid sock now data =
     (case data of
        None \<Rightarrow> ([], Some (TypeError ''Cannot destructure''))
      | Some d \<Rightarrow>
          (let jobId = loc_jobId d; lat = loc_lat d; lng = loc_lng d;
               access = Call (VerifyDriverJobAccess jobId (userId sock)) in
           case verifyDriverJobAccess (JobService env) jobId (userId sock) of
             Inl e \<Rightarrow> ([access], Some e)
           | Inr hasAccess \<Rightarrow>
               if \<not> hasAccess
               then ([access, socket_emit sid ''error'' (ErrorMessage ''Access denied'')], None)
               else
                 (let update = Call (UpdateDriverLocation jobId (userId sock) lat lng) in
                  case updateDriverLocation (JobService env) jobId (userId sock) lat lng of
                    Inl e \<Rightarrow> ([access, update], Some e)
                  | Inr u \<Rightarrow>
                      ([access, update,
                        io_to_emit st (''chat:'' @ to_string jobId) ''driver-location''
                          (DriverLocation jobId (userId sock) lat lng now)], None))))"

definition on_update_location ::
  "module_env \<Rightarrow> server \<Rightarrow> socket_id \<Rightarrow> socket_data \<Rightarrow> nat \<Rightarrow> location_data option
     \<Rightarrow> server \<times> action list" where
  "on_update_location env st sid sock now data =
     (case update_location_try env st sid sock now data of
        (acts, None) \<Rightarrow> (st, acts)
      | (acts, Some e) \<Rightarrow>
          (st, acts @ [socket_emit sid ''error'' (ErrorMessage ''Failed to update location'')]))"

definition job_status_update_try ::
  "module_env \<Rightarrow> server \<Rightarrow> socket_id \<Rightarrow> socket_data \<Rightarrow> nat \<Rightarrow> status_data option
     \<Rightarrow> action list \<times> js_error option" where
  "job_status_update_try env st sid sock now data =
     (case data of
        None \<Rightarrow> ([], Some (TypeError ''Cannot destructure''))
      | Some d \<Rightarrow>
          (let jobId = su_jobId d; status = su_status d; eta = su_eta d; notes = su_notes d;
               access = Call (VerifyDriverJobAccess jobId (userId sock)) in
           case verifyDriverJobAccess (JobService env) jobId (userId sock) of
             Inl e \<Rightarrow> ([access], Some e)
           | Inr hasAccess \<Rightarrow>
               if \<not> hasAccess
               then ([access, socket_emit sid ''error'' (ErrorMessage ''Access denied'')], None)
               else
                 (let meta = \<lparr>meta_driverId = userId sock, meta_eta = eta, meta_notes = notes\<rparr>;
                      update = Call (UpdateJobStatus jobId status meta) in
                  case updateJobStatus (JobService env) jobId status meta of
                    Inl e \<Rightarrow> ([access, update], Some e)
                  | Inr updateResult \<Rightarrow>
                      (let sent = [access, update,
                                   io_to_emit st (''chat:'' @ to_string jobId) ''job-update''
                                     (JobUpdate jobId status (userId sock) (userName sock) eta notes now),
                                   Call (GetJobCustomerId jobId)] in
                       case getJobCustomerId (JobService env) jobId of
                         Inl e \<Rightarrow> (sent, Some e)
                       | Inr customerId \<Rightarrow>
                           if \<not> NotificationService env
                           then (sent, Some (ReferenceError ''NotificationService is not defined''))
                           else
                             (sent @ [Call (SendPushNotification customerId
                                \<lparr>n_title = ''Job Status Update'',
                                 n_body = JStr (''Your job status has been updated to: '' @ to_string status),
                                 n_data = JobUpdateData jobId status\<rparr>)], None)))))"

definition on_job_status_update ::
  "module_env \<Rightarrow> server \<Rightarrow> socket_id \<Rightarrow> socket_data \<Rightarrow> nat \<Rightarrow> status_data option
     \<Rightarrow> server \<times> action list" where
  "on_job_status_update env st sid sock now data =
     (case job_status_update_try env st sid sock now data of
        (acts, None) \<Rightarrow> (st, acts)
      | (acts, Some e) \<Rightarrow>
          (st, acts @ [socket_emit sid ''error'' (ErrorMessage ''Failed to update job status'')]))"

text \<open>\<^verbatim>\<open>placeBid\<close> resolves to the bid, of which the handler reads the \<^verbatim>\<open>id\<close> only; the
  model's \<open>placeBid\<close> answers that id.\<close>

definition place_bid_try ::
  "module_env \<Rightarrow> server \<Rightarrow> socket_id \<Rightarrow> socket_data \<Rightarrow> nat \<Rightarrow> bid_data option
     \<Rightarrow> action list \<times> js_error option" where
  "place_bid_try env st sid sock now data =
     (case data of
        None \<Rightarrow> ([], Some (TypeError ''Cannot destructure''))
      | Some d \<Rightarrow>
          (let jobId = pb_jobId d; amount = pb_amount d; eta = pb_eta d; notes = pb_notes d;
               check = Call (CanDriverBid jobId (userId sock)) in
           case canDriverBid (JobService env) jobId (userId sock) of
             Inl e \<Rightarrow> ([check], Some e)
           | Inr canBid \<Rightarrow>
               if \<not> canBid
               then ([check, socket_emit sid ''error'' (ErrorMessage ''Cannot bid on this job'')], None)
               else
                 (let draft = \<lparr>bid_jobId = jobId, bid_driverId = userId sock, bid_amount = amount,
                                bid_eta = eta, bid_notes = notes\<rparr>;
                      place = Call (PlaceBidCall draft) in
                  case placeBid (JobService env) draft of
                    Inl e \<Rightarrow> ([check, place], Some e)
                  | Inr bidId \<Rightarrow>
                      (let done = [check, place, Call (GetJobCustomerId jobId)] in
                       case getJobCustomerId (JobService env) jobId of
                         Inl e \<Rightarrow> (done, Some e)
                       | Inr customerId \<Rightarrow>
                           if \<not> NotificationService env
                           then (done, Some (ReferenceError ''NotificationService is not defined''))
                           else
                             (done @ [Call (SendPushNotification customerId
                                \<lparr>n_title = ''New Bid Received'',
                                 n_body = JStr (to_string (userName sock) @ '' bid $''
                                            @ to_string amount @ '' on your job''),
                                 n_data = NewBidData jobId bidId (userId sock) (userName sock) amount\<rparr>)],
                              None)))))"

definition on_place_bid ::
  "module_env \<Rightarrow> server \<Rightarrow> socket_id \<Rightarrow> socket_data \<Rightarrow> nat \<Rightarrow> bid_data option
     \<Rightarrow> server \<times> action list" where
  "on_place_bid env st sid sock now data =
     (case place_bid_try env st sid sock now data of
        (acts, None) \<Rightarrow> (st, acts)
      | (acts, Some e) \<Rightarrow>
          (st, acts @ [socket_emit sid ''error'' (ErrorMessage ''Failed to place bid'')]))"

text \<open>The \<^verbatim>\<open>subscribe-new-jobs\<close> handler, also without a \<^verbatim>\<open>try\<close>.\<close>

definition on_subscribe_new_jobs ::
  "server \<Rightarrow> socket_id \<Rightarrow> socket_data \<Rightarrow> subscribe_data option \<Rightarrow> js_error + server \<times> action list" where
  "on_subscribe_new_jobs st sid sock data =
     (case data of
        None \<Rightarrow> Inl (TypeError ''Cannot destructure'')
      | Some d \<Rightarrow>
          (let lat = sub_lat d; lng = sub_lng d; radius = radius_or_default (sub_radius d);
               st1 = socket_join st sid (locationKey lat lng radius)
           in Inr (st1\<lparr>sockets := (sockets st1)(sid \<mapsto>
                     sock\<lparr>locationPreference :=
                       Some \<lparr>pref_lat = lat, pref_lng = lng, pref_radius = radius\<rparr>\<rparr>)\<rparr>, [])))"

text \<open>
  The \<^verbatim>\<open>disconnect\<close> handler, run by the library after it has taken the socket out of
  its rooms; the socket is gone afterwards.
\<close>

definition on_disconnect ::
  "server \<Rightarrow> socket_id \<Rightarrow> socket_data \<Rightarrow> nat \<Rightarrow> server \<times> action list" where
  "on_disconnect st sid sock now =
     (let st1 = leave_all st sid;
          acts = (case currentChatRoom sock of
                    None \<Rightarrow> []
                  | Some r \<Rightarrow>
                      [socket_to_emit st1 sid r ''typing''
                         (TypingNotice (userId sock) (userName sock) (JBool False) now)])
      in (st1\<lparr>sockets := (sockets st1)(sid := None)\<rparr>, acts))"

section \<open>The server as a transition function\<close>

fun handle_event ::
  "module_env \<Rightarrow> server \<Rightarrow> socket_id \<Rightarrow> socket_data \<Rightarrow> nat \<Rightarrow> event
     \<Rightarrow> js_error + server \<times> action list" where
  "handle_event env st sid sock now (JoinChat jobId) = Inr (on_join_chat env st sid sock now jobId)"
| "handle_event env st sid sock now (LeaveChat jobId) = Inr (on_leave_chat st sid sock now jobId)"
| "handle_event env st sid sock now (SendMessage data) = Inr (on_send_message env st sid sock now data)"
| "handle_event env st sid sock now (Typing data) = on_typing st sid sock now data"
| "handle_event env st sid sock now (UpdateLocation data) = Inr (on_update_location env st sid sock now data)"
| "handle_event env st sid sock now (JobStatusUpdate data) = Inr (on_job_status_update env st sid sock now data)"
| "handle_event env st sid sock now (PlaceBid data) = Inr (on_place_bid env st sid sock now data)"
| "handle_event env st sid sock now (SubscribeNewJobs data) = on_subscribe_new_jobs st sid sock data"

text \<open>
  One input. A handler runs to its end before the next input is taken: the interleaving of
  two handlers at their \<^verbatim>\<open>await\<close>s is not modelled, and neither is what the handlers
  write to the console. \<open>Inl\<close> is an exception that no handler caught. A socket has handlers only
  once the middleware let it through: an event or a disconnect for a socket that is not
  connected finds none. The library gives every connection an id of its own; a handshake
  under an id in use does not occur and is left without effect.
\<close>

fun step :: "module_env \<Rightarrow> server \<Rightarrow> input \<Rightarrow> js_error + server \<times> action list" where
  "step env st (Connect sid token) =
     (if sid \<in> dom (sockets st) then Inr (st, [])
      else case authenticate env token of
        Inl msg \<Rightarrow> Inr (st, [ConnectError sid msg])
      | Inr sock \<Rightarrow> Inr (on_connection st sid sock, []))"
| "step env st (Event sid now ev) =
     (case sockets st sid of
        None \<Rightarrow> Inr (st, [])
      | Some sock \<Rightarrow> handle_event env st sid sock now ev)"
| "step env st (Disconnect sid now) =
     (case sockets st sid of
        None \<Rightarrow> Inr (st, [])
      | Some sock \<Rightarrow> Inr (on_disconnect st sid sock now))"

fun run :: "module_env \<Rightarrow> server \<Rightarrow> input list \<Rightarrow> js_error + server \<times> action list" where
  "run env st [] = Inr (st, [])"
| "run env st (i # is) =
     (case step env st i of
        Inl e \<Rightarrow> Inl e
      | Inr (st1, acts1) \<Rightarrow>
          (case run env st1 is of
             Inl e \<Rightarrow> Inl e
           | Inr (st2, acts2) \<Rightarrow> Inr (st2, acts1 @ acts2)))"

section \<open>Utilities exported to the rest of the backend\<close>

text \<open>\<open>io\<close> is \<open>None\<close> until \<^verbatim>\<open>initialize\<close> has run; \<^verbatim>\<open>if (io)\<close> guards every utility.\<close>

definition emitToUser :: "server option \<Rightarrow> jsval \<Rightarrow> string \<Rightarrow> payload \<Rightarrow> action list" where
  "emitToUser io uid ev d =
     (case io of None \<Rightarrow> [] | Some st \<Rightarrow> [io_to_emit st (''user:'' @ to_string uid) ev d])"

definition emitToChat :: "server option \<Rightarrow> jsval \<Rightarrow> string \<Rightarrow> payload \<Rightarrow> action list" where
  "emitToChat io jobId ev d =
     (case io of None \<Rightarrow> [] | Some st \<Rightarrow> [io_to_emit st (''chat:'' @ to_string jobId) ev d])"

definition emitToLocation ::
  "server option \<Rightarrow> real \<Rightarrow> real \<Rightarrow> jsval \<Rightarrow> string \<Rightarrow> payload \<Rightarrow> action list" where
  "emitToLocation io lat lng radius ev d =
     (case io of None \<Rightarrow> [] | Some st \<Rightarrow> [io_to_emit st (locationKey lat lng radius) ev d])"

definition broadcastToAdmins :: "server option \<Rightarrow> string \<Rightarrow> payload \<Rightarrow> action list" where
  "broadcastToAdmins io ev d =
     (case io of None \<Rightarrow> [] | Some st \<Rightarrow> [io_to_emit st ''admin'' ev d])"

section \<open>Tokens issued by the login and register routes\<close>

record user_row =
  user_id :: jsval
  user_email :: jsval
  user_role :: jsval

text \<open>The object both routes pass to \<^verbatim>\<open>jwt.sign\<close>: \<^verbatim>\<open>{ id, email, role }\<close>.\<close>

definition login_token_payload :: "user_row \<Rightarrow> (string \<rightharpoonup> jsval)" where
  "login_token_payload u = [''id'' \<mapsto> user_id u, ''email'' \<mapsto> user_email u, ''role'' \<mapsto> user_role u]"

text \<open>What \<^verbatim>\<open>jwt.verify\<close> decodes from such a token: the signed object with the issue and
  expiry times \<^verbatim>\<open>jwt.sign\<close> added (\<^verbatim>\<open>expiresIn: '1h'\<close>).\<close>

definition decoded_login_token :: "user_row \<Rightarrow> int \<Rightarrow> (string \<rightharpoonup> jsval)" where
  "decoded_login_token u iat = (login_token_payload u)(''iat'' \<mapsto> JNum iat, ''exp'' \<mapsto> JNum (iat + 3600))"

section \<open>A concrete deployment\<close>

text \<open>
  Stand-ins for the collaborators, as a test of the socket layer would stub them: job 7
  has customer 10 and driver 20; messages are stored under id 1; every token other than
  the five below fails verification.
\<close>

definition demo_chat :: chat_service where
  "demo_chat =
     \<lparr>verifyChatAccess = (\<lambda>jobId uid role.
         Inr (jobId = JNum 7 \<and> (uid = JNum 10 \<or> uid = JNum 20 \<or> role = JStr ''admin''))),
      getRecentMessages = (\<lambda>jobId. Inr []),
      saveMessage = (\<lambda>d. Inr \<lparr>draft_jobId = draft_jobId d, draft_senderId = draft_senderId d,
         draft_senderName = draft_senderName d, draft_message = draft_message d,
         draft_type = draft_type d, draft_timestamp = draft_timestamp d, message_id = JNum 1\<rparr>),
      getOtherParticipants = (\<lambda>jobId uid. Inr (filter (\<lambda>p. p \<noteq> uid) [JNum 10, JNum 20]))\<rparr>"

definition demo_jobs :: job_service where
  "demo_jobs =
     \<lparr>verifyDriverJobAccess = (\<lambda>jobId uid. Inr (jobId = JNum 7 \<and> uid = JNum 20)),
      updateDriverLocation = (\<lambda>jobId uid lat lng. Inr ()),
      updateJobStatus = (\<lambda>jobId status meta. Inr ()),
      getJobCustomerId = (\<lambda>jobId. if jobId = JNum 7 then Inr (JNum 10) else Inl (Rejected ''NotFound'')),
      canDriverBid = (\<lambda>jobId uid. Inr False),
      placeBid = (\<lambda>d. Inl (Rejected ''Forbidden''))\<rparr>"

definition demo_verify :: "string \<Rightarrow> js_error + (string \<rightharpoonup> jsval)" where
  "demo_verify s =
     (if s = ''token-cara''
        then Inr [''userId'' \<mapsto> JNum 10, ''role'' \<mapsto> JStr ''customer'', ''name'' \<mapsto> JStr ''Cara'']
      else if s = ''token-dan''
        then Inr [''userId'' \<mapsto> JNum 20, ''role'' \<mapsto> JStr ''driver'', ''name'' \<mapsto> JStr ''Dan'']
      else if s = ''token-sam''
        then Inr [''userId'' \<mapsto> JNum 30, ''role'' \<mapsto> JStr ''driver'', ''name'' \<mapsto> JStr ''Sam'']
      else if s = ''token-ada''
        then Inr [''userId'' \<mapsto> JNum 40, ''role'' \<mapsto> JStr ''admin'', ''name'' \<mapsto> JStr ''Ada'']
      else if s = ''token-login''
        then Inr (decoded_login_token
               \<lparr>user_id = JNum 10, user_email = JStr ''cara@example.org'', user_role = JStr ''customer''\<rparr> 1000)
      else Inl (Rejected ''invalid signature''))"

definition demo_env :: module_env where
  "demo_env = \<lparr>ChatService = Some demo_chat, JobService = demo_jobs,
               NotificationService = True, jwt_verify = demo_verify\<rparr>"

text \<open>The same deployment with a message store that is down.\<close>

definition failing_chat :: chat_service where
  "failing_chat = demo_chat\<lparr>saveMessage := (\<lambda>d. Inl (Rejected ''database unavailable''))\<rparr>"

definition failing_env :: module_env where
  "failing_env = demo_env\<lparr>ChatService := Some failing_chat\<rparr>"

definition cara :: socket_data where
  "cara = \<lparr>userId = JNum 10, userRole = JStr ''customer'', userName = JStr ''Cara'',
           locationPreference = None, currentChatRoom = None\<rparr>"

definition dan :: socket_data where
  "dan = \<lparr>userId = JNum 20, userRole = JStr ''driver'', userName = JStr ''Dan'',
          locationPreference = None, currentChatRoom = None\<rparr>"

definition sam :: socket_data where
  "sam = \<lparr>userId = JNum 30, userRole = JStr ''driver'', userName = JStr ''Sam'',
          locationPreference = None, currentChatRoom = None\<rparr>"

definition ada :: socket_data where
  "ada = \<lparr>userId = JNum 40, userRole = JStr ''admin'', userName = JStr ''Ada'',
          locationPreference = None, currentChatRoom = None\<rparr>"

text \<open>Four connections: Cara (socket 1) and Dan (socket 2) have joined the chat of job 7;
  Sam (socket 3) and the admin Ada (socket 4) have only connected.\<close>

definition connect_all :: "input list" where
  "connect_all = [Connect 1 (JStr ''token-cara''), Connect 2 (JStr ''token-dan''),
                  Connect 3 (JStr ''token-sam''), Connect 4 (JStr ''token-ada'')]"

definition chat_state :: server where
  "chat_state =
     \<lparr>sockets = [1 \<mapsto> cara, 2 \<mapsto> dan, 3 \<mapsto> sam, 4 \<mapsto> ada],
      rooms = (\<lambda>r. {})(''user:10'' := {1}, ''user:20'' := {2}, ''user:30'' := {3},
                        ''user:40'' := {4}, ''chat:7'' := {1, 2})\<rparr>"

definition hello :: send_message_data where
  "hello = \<lparr>sm_jobId = JNum 7, sm_message = JStr ''hello'', sm_type = JUndefined\<rparr>"

text \<open>The deployment with the module bindings as the file has them: the two \<^verbatim>\<open>require\<close>
  lines being commented out, \<^verbatim>\<open>ChatService\<close> and \<^verbatim>\<open>NotificationService\<close> are unbound.\<close>

definition file_env :: module_env where
  "file_env = demo_env\<lparr>ChatService := None, NotificationService := False\<rparr>"

text \<open>The four connections after their handshakes, none of them in a chat room.\<close>

definition connected_state :: server where
  "connected_state =
     \<lparr>sockets = [1 \<mapsto> cara, 2 \<mapsto> dan, 3 \<mapsto> sam, 4 \<mapsto> ada],
      rooms = (\<lambda>r. {})(''user:10'' := {1}, ''user:20'' := {2}, ''user:30'' := {3},
                        ''user:40'' := {4})\<rparr>"

text \<open>Two drivers subscribed to new jobs around the same place, Dan with radius 25 and
  Sam with radius 50.\<close>

definition dispatch_state :: server where
  "dispatch_state =
     \<lparr>sockets = [2 \<mapsto> dan\<lparr>locationPreference :=
                     Some \<lparr>pref_lat = 40, pref_lng = - 74, pref_radius = JNum 25\<rparr>\<rparr>,
                 3 \<mapsto> sam\<lparr>locationPreference :=
                     Some \<lparr>pref_lat = 402 / 10, pref_lng = - 741 / 10, pref_radius = JNum 50\<rparr>\<rparr>],
      rooms = (\<lambda>r. {})(''user:20'' := {2}, ''user:30'' := {3},
                        ''location:40:-74:25'' := {2}, ''location:40:-74:50'' := {3})\<rparr>"

section \<open>The dispatch rule as the specification words it\<close>

text \<open>
  Section 4.3 of the specification: a dispatch broadcast for a job at \<open>(lat, lng)\<close> targets
  every location group whose bucket equals \<open>(round lat, round lng)\<close> and whose stored radius
  is at least the distance from the bucket centre to the job. \<open>distance\<close> is that distance.
\<close>

definition spec_dispatch_target :: "real \<Rightarrow> real \<Rightarrow> real \<Rightarrow> int \<times> int \<times> real \<Rightarrow> bool" where
  "spec_dispatch_target lat lng distance g =
     (case g of (latBucket, lngBucket, radius) \<Rightarrow>
        latBucket = js_round lat \<and> lngBucket = js_round lng \<and> distance \<le> radius)"

section \<open>Properties of server states\<close>

text \<open>Only connected sockets are members of rooms.\<close>

definition wf_server :: "server \<Rightarrow> bool" where
  "wf_server st = (\<forall>r. rooms st r \<subseteq> dom (sockets st))"

text \<open>No connected socket has the property \<^verbatim>\<open>currentChatRoom\<close>.\<close>

definition no_current_room :: "server \<Rightarrow> bool" where
  "no_current_room st = (\<forall>sid sock. sockets st sid = Some sock \<longrightarrow> currentChatRoom sock = None)"


text \<open>The ways in which one input can change the server: nothing; a connected socket joins
  a chat room; a socket leaves a room; a connected socket joins a location room and records
  its preference; a new socket connects and joins its user room; a socket disconnects.\<close>

inductive transition :: "server \<Rightarrow> server \<Rightarrow> bool" where
  unchanged: "transition st st"
| joined: "sockets st sid = Some sock \<Longrightarrow> transition st (socket_join st sid (''chat:'' @ name))"
| left: "transition st (socket_leave st sid r)"
| subscribed: "sockets st sid = Some sock \<Longrightarrow>
     transition st ((socket_join st sid (locationKey lat lng radius))
       \<lparr>sockets := (sockets st)(sid \<mapsto> sock\<lparr>locationPreference := lp\<rparr>)\<rparr>)"
| connected: "sockets st sid = None \<Longrightarrow> currentChatRoom sock = None \<Longrightarrow>
     transition st (socket_join (st\<lparr>sockets := (sockets st)(sid \<mapsto> sock)\<rparr>) sid (''user:'' @ name))"
| disconnected: "transition st ((leave_all st sid)\<lparr>sockets := (sockets st)(sid := None)\<rparr>)"

section \<open>Rendering of integers is injective\<close>

lemma digit_cases: "d < 10 \<Longrightarrow> d \<in> {0, 1, 2, 3, 4, 5, 6, 7, 8, 9::nat}"
  by auto

lemma digit_val_digit_char: "d < 10 \<Longrightarrow> digit_val (digit_char d) = d"
  using digit_cases [of d] by (auto simp: digit_val_def digit_char_def)

lemma undigits_snoc: "undigits (cs @ [c]) = undigits cs * 10 + digit_val c"
  by (induction cs) (simp_all add: algebra_simps)

lemma undigits_digits: "undigits (digits n) = n"
proof (induction n rule: digits.induct)
  case (1 n)
  show ?case
  proof (cases "n < 10")
    case True
    then show ?thesis
      by (subst digits.simps) (simp add: digit_val_digit_char)
  next
    case False
    with 1 have "undigits (digits (n div 10)) = n div 10" by simp
    with False show ?thesis
      by (subst digits.simps) (simp add: undigits_snoc digit_val_digit_char)
  qed
qed

lemma digits_inj: "digits m = digits n \<Longrightarrow> m = n"
  by (metis undigits_digits)

lemma digit_char_in_range:
  "d < 10 \<Longrightarrow> digit_char d \<in> set ''0123456789''"
  using digit_cases [of d] by (auto simp: digit_char_def)

lemma set_digits: "set (digits n) \<subseteq> set ''0123456789''"
proof (induction n rule: digits.induct)
  case (1 n)
  show ?case
  proof (cases "n < 10")
    case True
    then show ?thesis
      using digit_char_in_range [of n] by (subst digits.simps) simp
  next
    case False
    with 1 have "set (digits (n div 10)) \<subseteq> set ''0123456789''" by simp
    moreover have "digit_char (n mod 10) \<in> set ''0123456789''"
      by (rule digit_char_in_range) simp
    ultimately show ?thesis using False
      by (subst digits.simps) simp
  qed
qed

lemma minus_not_in_digits: "CHR ''-'' \<notin> set (digits n)"
  using set_digits [of n] by auto

lemma colon_not_in_digits: "CHR '':'' \<notin> set (digits n)"
  using set_digits [of n] by auto

lemma hd_digits_not_minus: "digits n \<noteq> CHR ''-'' # cs"
  using minus_not_in_digits [of n] by (cases "digits n") auto

lemma num_to_string_inj: "num_to_string i = num_to_string j \<longleftrightarrow> i = j"
proof
  assume eq: "num_to_string i = num_to_string j"
  show "i = j"
  proof (cases "i < 0")
    case True
    note i = this
    show ?thesis
    proof (cases "j < 0")
      case True
      with i eq have "digits (nat (- i)) = digits (nat (- j))"
        by (simp add: num_to_string_def)
      then have "nat (- i) = nat (- j)" by (rule digits_inj)
      with i True show ?thesis by simp
    next
      case False
      with i eq show ?thesis
        using hd_digits_not_minus [of "nat j" "digits (nat (- i))"]
        by (simp add: num_to_string_def)
    qed
  next
    case False
    note i = this
    show ?thesis
    proof (cases "j < 0")
      case True
      with i eq show ?thesis
        using hd_digits_not_minus [of "nat i" "digits (nat (- j))"]
        by (simp add: num_to_string_def)
    next
      case False
      with i eq have "digits (nat i) = digits (nat j)"
        by (simp add: num_to_string_def)
      then have "nat i = nat j" by (rule digits_inj)
      with i False show ?thesis by simp
    qed
  qed
qed simp

lemma colon_not_in_num_to_string: "CHR '':'' \<notin> set (num_to_string i)"
  using colon_not_in_digits by (simp add: num_to_string_def)

lemma split_at_first:
  "x \<notin> set xs \<Longrightarrow> x \<notin> set xs' \<Longrightarrow>
     xs @ x # ys = xs' @ x # ys' \<longleftrightarrow> xs = xs' \<and> ys = ys'"
proof (induction xs arbitrary: xs')
  case Nil
  then show ?case by (cases xs') auto
next
  case (Cons a xs)
  then show ?case by (cases xs') auto
qed

lemma num_colon_eq_iff:
  "num_to_string i @ CHR '':'' # xs = num_to_string j @ CHR '':'' # ys \<longleftrightarrow> i = j \<and> xs = ys"
proof -
  have "num_to_string i @ CHR '':'' # xs = num_to_string j @ CHR '':'' # ys
          \<longleftrightarrow> num_to_string i = num_to_string j \<and> xs = ys"
    by (rule split_at_first) (rule colon_not_in_num_to_string)+
  then show ?thesis
    by (simp add: num_to_string_inj)
qed

lemma locationKey_eq_iff:
  "locationKey lat1 lng1 r = locationKey lat2 lng2 r \<longleftrightarrow>
     js_round lat1 = js_round lat2 \<and> js_round lng1 = js_round lng2"
  by (simp add: locationKey_def num_colon_eq_iff num_to_string_inj)

section \<open>What a handler can change\<close>


lemma on_send_message_state: "fst (on_send_message env st sid sock now data) = st"
  by (simp add: on_send_message_def split: prod.splits option.splits)

lemma on_update_location_state: "fst (on_update_location env st sid sock now data) = st"
  by (simp add: on_update_location_def split: prod.splits option.splits)

lemma on_job_status_update_state: "fst (on_job_status_update env st sid sock now data) = st"
  by (simp add: on_job_status_update_def split: prod.splits option.splits)

lemma on_place_bid_state: "fst (on_place_bid env st sid sock now data) = st"
  by (simp add: on_place_bid_def split: prod.splits option.splits)

lemma on_typing_state: "on_typing st sid sock now data = Inr (st', acts) \<Longrightarrow> st' = st"
  by (auto simp: on_typing_def split: option.splits)

lemma join_chat_try_state:
  "fst (join_chat_try env st sid sock now jobId) = st
     \<or> fst (join_chat_try env st sid sock now jobId) = socket_join st sid (''chat:'' @ to_string jobId)"
  by (simp add: join_chat_try_def Let_def split: option.splits sum.splits)

lemma on_join_chat_state:
  "fst (on_join_chat env st sid sock now jobId) = st
     \<or> fst (on_join_chat env st sid sock now jobId) = socket_join st sid (''chat:'' @ to_string jobId)"
  using join_chat_try_state [of env st sid sock now jobId]
  by (auto simp: on_join_chat_def split: prod.splits option.splits)

lemma on_leave_chat_state:
  "fst (on_leave_chat st sid sock now jobId) = socket_leave st sid (''chat:'' @ to_string jobId)"
  by (simp add: on_leave_chat_def Let_def)

lemma step_effect:
  assumes "step env st i = Inr (st', acts)"
  shows "transition st st'"
proof (cases i)
  case (Connect sid token)
  show ?thesis
  proof (cases "sid \<in> dom (sockets st)")
    case True
    with assms Connect show ?thesis by (simp add: unchanged)
  next
    case False
    show ?thesis
    proof (cases "authenticate env token")
      case (Inl msg)
      with assms Connect False show ?thesis by (simp add: unchanged)
    next
      case (Inr sock)
      then have "currentChatRoom sock = None"
        by (auto simp: authenticate_def split: if_splits jsval.splits sum.splits)
      moreover from assms Connect False Inr
      have "st' = socket_join (st\<lparr>sockets := (sockets st)(sid \<mapsto> sock)\<rparr>) sid (''user:'' @ to_string (userId sock))"
        by (simp add: on_connection_def)
      moreover have "sockets st sid = None" using False by auto
      ultimately show ?thesis
        using connected [of st sid sock "to_string (userId sock)"] by simp
    qed
  qed
next
  case (Event sid now ev)
  show ?thesis
  proof (cases "sockets st sid")
    case None
    with assms Event show ?thesis by (simp add: unchanged)
  next
    case (Some sock)
    with assms Event have h: "handle_event env st sid sock now ev = Inr (st', acts)" by simp
    show ?thesis
    proof (cases ev)
      case (JoinChat jobId)
      with h have "st' = fst (on_join_chat env st sid sock now jobId)" by auto
      with on_join_chat_state [of env st sid sock now jobId] Some show ?thesis
        using joined [of st sid sock "to_string jobId"] by (auto intro: unchanged)
    next
      case (LeaveChat jobId)
      with h have "st' = fst (on_leave_chat st sid sock now jobId)" by auto
      then show ?thesis by (simp add: on_leave_chat_state left)
    next
      case (SendMessage d)
      with h have "st' = fst (on_send_message env st sid sock now d)" by auto
      then show ?thesis by (simp add: on_send_message_state unchanged)
    next
      case (Typing d)
      with h show ?thesis by (auto dest: on_typing_state intro: unchanged)
    next
      case (UpdateLocation d)
      with h have "st' = fst (on_update_location env st sid sock now d)" by auto
      then show ?thesis by (simp add: on_update_location_state unchanged)
    next
      case (JobStatusUpdate d)
      with h have "st' = fst (on_job_status_update env st sid sock now d)" by auto
      then show ?thesis by (simp add: on_job_status_update_state unchanged)
    next
      case (PlaceBid d)
      with h have "st' = fst (on_place_bid env st sid sock now d)" by auto
      then show ?thesis by (simp add: on_place_bid_state unchanged)
    next
      case (SubscribeNewJobs d)
      with h obtain x where d: "d = Some x"
        and st': "st' = (socket_join st sid (locationKey (sub_lat x) (sub_lng x) (radius_or_default (sub_radius x))))
           \<lparr>sockets := (sockets st)(sid \<mapsto> sock\<lparr>locationPreference :=
              Some \<lparr>pref_lat = sub_lat x, pref_lng = sub_lng x, pref_radius = radius_or_default (sub_radius x)\<rparr>\<rparr>)\<rparr>"
        by (auto simp: on_subscribe_new_jobs_def Let_def socket_join_def split: option.splits)
      from st' Some show ?thesis by (simp add: subscribed)
    qed
  qed
next
  case (Disconnect sid now)
  show ?thesis
  proof (cases "sockets st sid")
    case None
    with assms Disconnect show ?thesis by (simp add: unchanged)
  next
    case (Some sock)
    with assms Disconnect
    have "st' = (leave_all st sid)\<lparr>sockets := (sockets st)(sid := None)\<rparr>"
      by (simp add: on_disconnect_def Let_def leave_all_def)
    then show ?thesis by (simp add: disconnected)
  qed
qed

lemma wf_server_transition:
  assumes "transition st st'" and "wf_server st"
  shows "wf_server st'"
  using assms
  by (cases rule: transition.cases)
     (auto simp: wf_server_def socket_join_def socket_leave_def leave_all_def)

lemma no_current_room_transition:
  assumes "transition st st'" and "no_current_room st"
  shows "no_current_room st'"
  using assms
  by (cases rule: transition.cases)
     (auto simp: no_current_room_def socket_join_def socket_leave_def leave_all_def split: if_splits)

lemma admin_room_transition:
  assumes "transition st st'" and "rooms st ''admin'' = {}"
  shows "rooms st' ''admin'' = {}"
  using assms
  by (cases rule: transition.cases)
     (auto simp: socket_join_def socket_leave_def leave_all_def locationKey_def)

lemma run_transitions:
  assumes "run env st is = Inr (st', acts)"
    and "P st"
    and "\<And>a b. transition a b \<Longrightarrow> P a \<Longrightarrow> P b"
  shows "P st'"
  using assms(1,2)
proof (induction "is" arbitrary: st acts)
  case Nil
  then show ?case by simp
next
  case (Cons i "is")
  from Cons.prems(1) obtain st1 acts1 acts2 where
    s: "step env st i = Inr (st1, acts1)" and r: "run env st1 is = Inr (st', acts2)"
    by (auto split: sum.splits)
  from s have "transition st st1" by (rule step_effect)
  with Cons.prems(2) have "P st1" by (rule assms(3) [rotated])
  with r show ?case by (rule Cons.IH)
qed

section \<open>Evaluation on concrete inputs\<close>

text \<open>The equations that unfold the concrete deployment, the handlers and the rendering
  of numbers when a trace is computed.\<close>

lemmas demo_defs = demo_env_def demo_chat_def demo_jobs_def demo_verify_def failing_env_def failing_chat_def
  cara_def dan_def sam_def ada_def chat_state_def hello_def connect_all_def initial_server_def

lemmas handler_defs = authenticate_def on_connection_def on_join_chat_def join_chat_try_def
  on_leave_chat_def on_send_message_def send_message_try_def on_typing_def on_subscribe_new_jobs_def
  on_disconnect_def socket_join_def socket_leave_def leave_all_def socket_emit_def socket_to_emit_def
  io_to_emit_def field_def type_or_default_def radius_or_default_def chat_notification_def Let_def

lemmas render_defs = num_to_string_def digits.simps digit_char_def locationKey_def js_round_def

section \<open>Recipients of an event\<close>


section \<open>Location rooms\<close>

lemma subscribe_step:
  assumes "sockets st sid = Some sock"
  shows "step env st (Event sid now (SubscribeNewJobs (Some \<lparr>sub_lat = lat, sub_lng = lng, sub_radius = r\<rparr>))) =
     Inr (\<lparr>sockets = (sockets st)(sid \<mapsto> sock\<lparr>locationPreference :=
              Some \<lparr>pref_lat = lat, pref_lng = lng, pref_radius = radius_or_default r\<rparr>\<rparr>),
           rooms = (rooms st)(locationKey lat lng (radius_or_default r) :=
                      insert sid (rooms st (locationKey lat lng (radius_or_default r))))\<rparr>, [])"
  using assms by (simp add: on_subscribe_new_jobs_def Let_def socket_join_def)

lemma locationKey_eq_iff_radius:
  "locationKey lat1 lng1 r1 = locationKey lat2 lng2 r2 \<longleftrightarrow>
     js_round lat1 = js_round lat2 \<and> js_round lng1 = js_round lng2 \<and> to_string r1 = to_string r2"
  by (simp add: locationKey_def num_colon_eq_iff)

section \<open>States the server can reach\<close>

lemma reachable_no_current_room:
  assumes "run env initial_server inputs = Inr (st, acts)"
  shows "no_current_room st"
proof (rule run_transitions [OF assms])
  show "no_current_room initial_server"
    by (simp add: no_current_room_def initial_server_def)
qed (rule no_current_room_transition)

lemma reachable_admin_room_empty:
  assumes "run env initial_server inputs = Inr (st, acts)"
  shows "rooms st ''admin'' = {}"
proof (rule run_transitions [OF assms])
  show "rooms initial_server ''admin'' = {}"
    by (simp add: initial_server_def)
qed (rule admin_room_transition)

lemma chat_state_reachable:
  "run demo_env initial_server
     (connect_all @ [Event 1 1 (JoinChat (JNum 7)), Event 2 2 (JoinChat (JNum 7))])
   = Inr (chat_state,
       [Call (VerifyChatAccess (JNum 7) (JNum 10) (JStr ''customer'')),
        Call (GetRecentMessages (JNum 7)),
        Emit {1} ''chat-history'' (ChatHistory []),
        Emit {} ''user-joined'' (UserPresence (JNum 10) (JStr ''Cara'') 1),
        Call (VerifyChatAccess (JNum 7) (JNum 20) (JStr ''driver'')),
        Call (GetRecentMessages (JNum 7)),
        Emit {2} ''chat-history'' (ChatHistory []),
        Emit {1} ''user-joined'' (UserPresence (JNum 20) (JStr ''Dan'') 2)])"
  by (simp add: demo_defs handler_defs render_defs insert_commute)

lemma wf_chat_state: "wf_server chat_state"
  by (auto simp: wf_server_def chat_state_def split: if_splits)

lemma dispatch_state_reachable:
  "run demo_env initial_server
     [Connect 2 (JStr ''token-dan''), Connect 3 (JStr ''token-sam''),
      Event 2 1 (SubscribeNewJobs (Some \<lparr>sub_lat = 40, sub_lng = - 74, sub_radius = JUndefined\<rparr>)),
      Event 3 2 (SubscribeNewJobs (Some \<lparr>sub_lat = 402 / 10, sub_lng = - 741 / 10, sub_radius = JNum 50\<rparr>))]
   = Inr (dispatch_state, [])"
  by (simp add: demo_defs handler_defs render_defs dispatch_state_def fun_upd_twist)

section \<open>The file as it stands\<close>

text \<open>With the \<^verbatim>\<open>require\<close> of \<^verbatim>\<open>ChatService\<close> commented out, the first use of the
  identifier throws inside the \<^verbatim>\<open>try\<close> block: the two chat handlers answer the sender
  with their failure message and do nothing else.\<close>

lemma join_chat_unbound:
  assumes "sockets st sid = Some sock" and "ChatService env = None"
  shows "step env st (Event sid now (JoinChat jobId)) =
           Inr (st, [Emit {sid} ''error'' (ErrorMessage ''Failed to join chat'')])"
  using assms by (simp add: on_join_chat_def join_chat_try_def socket_emit_def)

lemma send_message_unbound:
  assumes "sockets st sid = Some sock" and "ChatService env = None"
  shows "step env st (Event sid now (SendMessage data)) =
           Inr (st, [Emit {sid} ''error'' (ErrorMessage ''Failed to send message'')])"
  using assms by (simp add: on_send_message_def send_message_try_def socket_emit_def split: option.splits)






section \<open>With the chat service bound\<close>

text \<open>Were \<^verbatim>\<open>ChatService\<close> bound, the guard of \<^verbatim>\<open>send-message\<close> would be the access check
  of the chat service, whatever the rooms the sender is in; and a disconnect would emit
  nothing, whatever the environment.\<close>

lemma send_message_access_denied:
  assumes "sockets st sid = Some sock"
    and "ChatService env = Some cs"
    and "verifyChatAccess cs (sm_jobId d) (userId sock) (userRole sock) = Inr False"
  shows "step env st (Event sid now (SendMessage (Some d))) =
           Inr (st, [Call (VerifyChatAccess (sm_jobId d) (userId sock) (userRole sock)),
                     Emit {sid} ''error'' (ErrorMessage ''Access denied'')])"
  using assms by (simp add: on_send_message_def send_message_try_def socket_emit_def Let_def)

lemma send_message_access_granted_outside_room:
  "sockets chat_state 4 = Some ada \<and> 4 \<notin> rooms chat_state ''chat:7''
   \<and> step demo_env chat_state (Event 4 5 (SendMessage (Some hello))) =
       Inr (chat_state,
            [Call (VerifyChatAccess (JNum 7) (JNum 40) (JStr ''admin'')),
             Call (SaveMessage \<lparr>draft_jobId = JNum 7, draft_senderId = JNum 40,
                    draft_senderName = JStr ''Ada'', draft_message = JStr ''hello'',
                    draft_type = JStr ''text'', draft_timestamp = 5\<rparr>),
             Emit {1, 2} ''new-message'' (NewMessage \<lparr>draft_jobId = JNum 7, draft_senderId = JNum 40,
                    draft_senderName = JStr ''Ada'', draft_message = JStr ''hello'',
                    draft_type = JStr ''text'', draft_timestamp = 5, message_id = JNum 1\<rparr>),
             Call (GetOtherParticipants (JNum 7) (JNum 40)),
             Call (SendPushNotification (JNum 10) \<lparr>n_title = ''New message from Ada'', n_body = JStr ''hello'',
                    n_data = ChatMessageData (JNum 7) (JNum 40) (JStr ''Ada'')\<rparr>),
             Call (SendPushNotification (JNum 20) \<lparr>n_title = ''New message from Ada'', n_body = JStr ''hello'',
                    n_data = ChatMessageData (JNum 7) (JNum 40) (JStr ''Ada'')\<rparr>)])"
  by (simp add: demo_defs handler_defs render_defs)

lemma disconnect_silent:
  assumes "run env initial_server inputs = Inr (st, acts)"
    and "sockets st sid = Some sock"
  shows "step env st (Disconnect sid now) =
           Inr (\<lparr>sockets = (sockets st)(sid := None), rooms = (\<lambda>r. rooms st r - {sid})\<rparr>, [])"
proof -
  from assms(1) have "no_current_room st" by (rule reachable_no_current_room)
  with assms(2) have "currentChatRoom sock = None" by (simp add: no_current_room_def)
  with assms(2) show ?thesis
    by (simp add: on_disconnect_def leave_all_def Let_def)
qed

section \<open>The claims\<close>

subsection \<open>C1: fan-out of a chat message\<close>



subsection \<open>C2: a send-message from outside the room\<close>

text \<open>
  Claim C2. As the file stands (\<^verbatim>\<open>ChatService\<close> is unbound), a \<^verbatim>\<open>send-message\<close> from a
  connected socket that is not a member of the chat room of the job is answered by one
  \<^verbatim>\<open>error\<close> event to the sender only: no collaborator is called, so nothing is saved,
  nothing is broadcast, and the server state is unchanged.
\<close>

theorem send_message_outside_room_rejected:
  assumes "ChatService env = None"
    and "sockets st sid = Some sock"
    and "sid \<notin> rooms st (''chat:'' @ to_string (sm_jobId d))"
  shows "step env st (Event sid now (SendMessage (Some d))) =
           Inr (st, [Emit {sid} ''error'' (ErrorMessage ''Failed to send message'')])"
  using assms(1,2) by (simp add: on_send_message_def send_message_try_def socket_emit_def)

theorem send_message_outside_room_rejected_witness:
  "ChatService file_env = None \<and> sockets connected_state 4 = Some ada
   \<and> 4 \<notin> rooms connected_state ''chat:7''
   \<and> step file_env connected_state (Event 4 5 (SendMessage (Some hello))) =
       Inr (connected_state, [Emit {4} ''error'' (ErrorMessage ''Failed to send message'')])"
proof -
  have a: "ChatService file_env = None" by (simp add: file_env_def)
  have b: "sockets connected_state 4 = Some ada" by (simp add: connected_state_def)
  have c: "4 \<notin> rooms connected_state (''chat:'' @ to_string (sm_jobId hello))"
    by (simp add: connected_state_def hello_def render_defs)
  have d: "4 \<notin> rooms connected_state ''chat:7''" by (simp add: connected_state_def)
  from send_message_outside_room_rejected [OF a b c, of 5] a b d show ?thesis by simp
qed

subsection \<open>C3: a join-chat that is refused\<close>

text \<open>
  Claim C3. When \<^verbatim>\<open>verifyChatAccess\<close> answers that the identity has no access to the job
  (it is neither the customer, nor the assigned driver, nor an admin), a \<^verbatim>\<open>join-chat\<close>
  yields the error \<^verbatim>\<open>Access denied to this chat\<close> emitted to the requesting connection
  only; the server state, hence the member set of the room, is unchanged, and nothing else
  is emitted, so no \<^verbatim>\<open>user-joined\<close> reaches the room.
\<close>

theorem join_chat_denied:
  assumes "sockets st sid = Some sock"
    and "ChatService env = Some cs"
    and "verifyChatAccess cs jobId (userId sock) (userRole sock) = Inr False"
  shows "step env st (Event sid now (JoinChat jobId)) =
           Inr (st, [Call (VerifyChatAccess jobId (userId sock) (userRole sock)),
                     Emit {sid} ''error'' (ErrorMessage ''Access denied to this chat'')])"
  using assms by (simp add: on_join_chat_def join_chat_try_def socket_emit_def)

theorem join_chat_denied_witness:
  "sockets chat_state 3 = Some sam \<and> ChatService demo_env = Some demo_chat
   \<and> verifyChatAccess demo_chat (JNum 7) (userId sam) (userRole sam) = Inr False
   \<and> step demo_env chat_state (Event 3 5 (JoinChat (JNum 7))) =
       Inr (chat_state, [Call (VerifyChatAccess (JNum 7) (JNum 30) (JStr ''driver'')),
                         Emit {3} ''error'' (ErrorMessage ''Access denied to this chat'')])
   \<and> 3 \<notin> rooms chat_state ''chat:7''"
proof -
  have a: "sockets chat_state 3 = Some sam" by (simp add: chat_state_def)
  have b: "ChatService demo_env = Some demo_chat" by (simp add: demo_env_def)
  have c: "verifyChatAccess demo_chat (JNum 7) (userId sam) (userRole sam) = Inr False"
    by (simp add: demo_chat_def sam_def)
  have d: "3 \<notin> rooms chat_state ''chat:7''" by (simp add: chat_state_def)
  from join_chat_denied [OF a b c, of 5] a b c d show ?thesis by (simp add: sam_def)
qed

subsection \<open>C4: a handshake that is refused\<close>

text \<open>
  Claim C4. A handshake whose token is missing (falsy), is not a string, or is a string
  that \<^verbatim>\<open>jwt.verify\<close> rejects is refused with an authentication error and leaves the
  server as it was: the connection is not among the connected sockets, it is a member of
  no room, and an event sent under its id runs no handler (no emit, no call to any
  collaborator, no change of state).
\<close>

theorem handshake_rejects_bad_credential:
  assumes "\<not> truthy token \<or> (\<forall>s. token \<noteq> JStr s) \<or> (\<exists>s e. token = JStr s \<and> jwt_verify env s = Inl e)"
    and "sockets st sid = None"
    and "wf_server st"
  shows "(step env st (Connect sid token) = Inr (st, [ConnectError sid ''Authentication error: No token provided''])
          \<or> step env st (Connect sid token) = Inr (st, [ConnectError sid ''Authentication error: Invalid token'']))
       \<and> (\<forall>r. sid \<notin> rooms st r)
       \<and> (\<forall>now ev. step env st (Event sid now ev) = Inr (st, []))"
proof -
  have "authenticate env token = Inl ''Authentication error: No token provided''
      \<or> authenticate env token = Inl ''Authentication error: Invalid token''"
    using assms(1) by (auto simp: authenticate_def split: jsval.splits sum.splits)
  moreover have "sid \<notin> dom (sockets st)" using assms(2) by auto
  ultimately have "step env st (Connect sid token) = Inr (st, [ConnectError sid ''Authentication error: No token provided''])
          \<or> step env st (Connect sid token) = Inr (st, [ConnectError sid ''Authentication error: Invalid token''])"
    by auto
  moreover have "\<forall>r. sid \<notin> rooms st r"
    using assms(2,3) by (auto simp: wf_server_def)
  moreover have "\<forall>now ev. step env st (Event sid now ev) = Inr (st, [])"
    using assms(2) by simp
  ultimately show ?thesis by blast
qed

theorem handshake_rejects_bad_credential_witness:
  "step demo_env chat_state (Connect 9 (JStr ''forged'')) =
      Inr (chat_state, [ConnectError 9 ''Authentication error: Invalid token''])
   \<and> step demo_env chat_state (Connect 9 JUndefined) =
      Inr (chat_state, [ConnectError 9 ''Authentication error: No token provided''])
   \<and> (\<forall>r. 9 \<notin> rooms chat_state r)
   \<and> step demo_env chat_state (Event 9 5 (JoinChat (JNum 7))) = Inr (chat_state, [])"
proof -
  have bad: "\<not> truthy (JStr ''forged'') \<or> (\<forall>s. JStr ''forged'' \<noteq> JStr s)
      \<or> (\<exists>s e. JStr ''forged'' = JStr s \<and> jwt_verify demo_env s = Inl e)"
    by (simp add: demo_env_def demo_verify_def)
  have fresh: "sockets chat_state 9 = None" by (simp add: chat_state_def)
  have "step demo_env chat_state (Connect 9 (JStr ''forged'')) \<noteq>
      Inr (chat_state, [ConnectError 9 ''Authentication error: No token provided''])"
    using fresh by (simp add: authenticate_def demo_env_def demo_verify_def dom_def)
  moreover have "step demo_env chat_state (Connect 9 JUndefined) =
      Inr (chat_state, [ConnectError 9 ''Authentication error: No token provided''])"
    using fresh by (simp add: authenticate_def dom_def)
  ultimately show ?thesis
    using handshake_rejects_bad_credential [OF bad fresh wf_chat_state] by blast
qed

subsection \<open>C5: what a disconnect emits\<close>



subsection \<open>C6: which location room a subscriber lands in\<close>

text \<open>
  Claim C6. Two connected sockets that send \<^verbatim>\<open>subscribe-new-jobs\<close> with the same radius
  are each added to the room named after their rounded coordinates and that radius, and to
  no other room; the two rooms are the same if and only if the rounded latitudes are equal
  and the rounded longitudes are equal.
\<close>

theorem location_group_by_rounded_coordinates:
  assumes "sockets st s1 = Some k1" and "sockets st s2 = Some k2" and "s1 \<noteq> s2"
  shows "\<exists>st2. run env st
            [Event s1 n1 (SubscribeNewJobs (Some \<lparr>sub_lat = lat1, sub_lng = lng1, sub_radius = r\<rparr>)),
             Event s2 n2 (SubscribeNewJobs (Some \<lparr>sub_lat = lat2, sub_lng = lng2, sub_radius = r\<rparr>))]
           = Inr (st2, [])
         \<and> (\<forall>room. rooms st2 room = rooms st room
               \<union> (if room = locationKey lat1 lng1 (radius_or_default r) then {s1} else {})
               \<union> (if room = locationKey lat2 lng2 (radius_or_default r) then {s2} else {}))
         \<and> (locationKey lat1 lng1 (radius_or_default r) = locationKey lat2 lng2 (radius_or_default r)
              \<longleftrightarrow> js_round lat1 = js_round lat2 \<and> js_round lng1 = js_round lng2)"
proof -
  let ?st1 = "\<lparr>sockets = (sockets st)(s1 \<mapsto> k1\<lparr>locationPreference :=
              Some \<lparr>pref_lat = lat1, pref_lng = lng1, pref_radius = radius_or_default r\<rparr>\<rparr>),
           rooms = (rooms st)(locationKey lat1 lng1 (radius_or_default r) :=
                      insert s1 (rooms st (locationKey lat1 lng1 (radius_or_default r))))\<rparr>"
  have a: "step env st (Event s1 n1 (SubscribeNewJobs (Some \<lparr>sub_lat = lat1, sub_lng = lng1, sub_radius = r\<rparr>))) = Inr (?st1, [])"
    using assms(1) by (rule subscribe_step)
  have "sockets ?st1 s2 = Some k2" using assms(2,3) by simp
  from subscribe_step [OF this, of env n2 lat2 lng2 r]
  obtain st2 where b: "step env ?st1 (Event s2 n2 (SubscribeNewJobs (Some \<lparr>sub_lat = lat2, sub_lng = lng2, sub_radius = r\<rparr>))) = Inr (st2, [])"
    and r2: "rooms st2 = (rooms ?st1)(locationKey lat2 lng2 (radius_or_default r) :=
                      insert s2 (rooms ?st1 (locationKey lat2 lng2 (radius_or_default r))))"
    by simp
  have "run env st
            [Event s1 n1 (SubscribeNewJobs (Some \<lparr>sub_lat = lat1, sub_lng = lng1, sub_radius = r\<rparr>)),
             Event s2 n2 (SubscribeNewJobs (Some \<lparr>sub_lat = lat2, sub_lng = lng2, sub_radius = r\<rparr>))]
           = Inr (st2, [])"
    by (simp only: run.simps a b sum.case prod.case append_Nil)
  moreover have "\<forall>room. rooms st2 room = rooms st room
               \<union> (if room = locationKey lat1 lng1 (radius_or_default r) then {s1} else {})
               \<union> (if room = locationKey lat2 lng2 (radius_or_default r) then {s2} else {})"
    by (auto simp: r2)
  ultimately show ?thesis
    using locationKey_eq_iff [of lat1 lng1 "radius_or_default r" lat2 lng2] by blast
qed

theorem location_group_by_rounded_coordinates_witness:
  "\<exists>st2. run demo_env chat_state
            [Event 2 1 (SubscribeNewJobs (Some \<lparr>sub_lat = 4071 / 100, sub_lng = - 74, sub_radius = JUndefined\<rparr>)),
             Event 3 2 (SubscribeNewJobs (Some \<lparr>sub_lat = 412 / 10, sub_lng = - 736 / 10, sub_radius = JUndefined\<rparr>))]
           = Inr (st2, [])
       \<and> rooms st2 ''location:41:-74:25'' = {2, 3}
       \<and> js_round (4071 / 100) = js_round (412 / 10) \<and> js_round (- 74) = js_round (- 736 / 10)"
proof -
  have a: "sockets chat_state 2 = Some dan" by (simp add: chat_state_def)
  have b: "sockets chat_state 3 = Some sam" by (simp add: chat_state_def)
  have c: "(2::nat) \<noteq> 3" by simp
  have k1: "locationKey (4071 / 100) (- 74) (radius_or_default JUndefined) = ''location:41:-74:25''"
    by (simp add: render_defs radius_or_default_def)
  have k2: "locationKey (412 / 10) (- 736 / 10) (radius_or_default JUndefined) = ''location:41:-74:25''"
    by (simp add: render_defs radius_or_default_def)
  have e: "rooms chat_state ''location:41:-74:25'' = {}" by (simp add: chat_state_def)
  from location_group_by_rounded_coordinates [OF a b c, of demo_env 1 "4071 / 100" "- 74" JUndefined 2 "412 / 10" "- 736 / 10"]
  obtain st2 where
    r: "run demo_env chat_state
            [Event 2 1 (SubscribeNewJobs (Some \<lparr>sub_lat = 4071 / 100, sub_lng = - 74, sub_radius = JUndefined\<rparr>)),
             Event 3 2 (SubscribeNewJobs (Some \<lparr>sub_lat = 412 / 10, sub_lng = - 736 / 10, sub_radius = JUndefined\<rparr>))]
           = Inr (st2, [])"
    and m: "rooms st2 ''location:41:-74:25'' = rooms chat_state ''location:41:-74:25''
               \<union> (if ''location:41:-74:25'' = locationKey (4071 / 100) (- 74) (radius_or_default JUndefined) then {2} else {})
               \<union> (if ''location:41:-74:25'' = locationKey (412 / 10) (- 736 / 10) (radius_or_default JUndefined) then {3} else {})"
    and i: "locationKey (4071 / 100) (- 74) (radius_or_default JUndefined) = locationKey (412 / 10) (- 736 / 10) (radius_or_default JUndefined)
              \<longleftrightarrow> js_round (4071 / 100) = js_round (412 / 10) \<and> js_round (- 74) = js_round (- 736 / 10)"
    by blast
  from m have "rooms st2 ''location:41:-74:25'' = {2, 3}"
    by (simp only: k1 k2 e) auto
  with r i k1 k2 show ?thesis by auto
qed

subsection \<open>C7: which location rooms a dispatch reaches\<close>

text \<open>
  Claim C7 as stated fails: Dan (socket 2, radius 25) and Sam (socket 3, radius 50) are
  subscribed in the bucket \<open>(40, -74)\<close>. A job at the bucket centre is at distance 0, so both
  groups are targets in the specification's sense. \<^verbatim>\<open>emitToLocation\<close> called with radius 25
  reaches Dan only.
\<close>

theorem emitToLocation_other_radius_counterexample:
  "spec_dispatch_target 40 (- 74) 0 (40, - 74, 50)
   \<and> rooms dispatch_state (locationKey 40 (- 74) (JNum 50)) = {3}
   \<and> emitToLocation (Some dispatch_state) 40 (- 74) (JNum 25) ''new-job'' (External ''job 99'')
       = [Emit {2} ''new-job'' (External ''job 99'')]
   \<and> \<not> delivered 3 ''new-job''
         (emitToLocation (Some dispatch_state) 40 (- 74) (JNum 25) ''new-job'' (External ''job 99''))"
  by (simp add: spec_dispatch_target_def dispatch_state_def emitToLocation_def io_to_emit_def
        delivered_def render_defs)

text \<open>
  Claim C7, amended. \<^verbatim>\<open>emitToLocation(lat, lng, radius, event, data)\<close> emits the event
  once, to exactly the members of one room: the location group whose bucket is
  \<open>(round lat, round lng)\<close> and whose radius prints like the \<open>radius\<close> argument. No distance
  is computed, and groups of the same bucket with another radius receive nothing. Before
  \<^verbatim>\<open>initialize\<close> the utility does nothing.
\<close>

theorem emitToLocation_single_room:
  "emitToLocation (Some st) lat lng radius ev d = [Emit (rooms st (locationKey lat lng radius)) ev d]
   \<and> (\<forall>c. delivered c ev (emitToLocation (Some st) lat lng radius ev d)
            \<longleftrightarrow> c \<in> rooms st (locationKey lat lng radius))
   \<and> (\<forall>lat' lng' radius'. locationKey lat' lng' radius' = locationKey lat lng radius
            \<longleftrightarrow> js_round lat' = js_round lat \<and> js_round lng' = js_round lng
                 \<and> to_string radius' = to_string radius)
   \<and> emitToLocation None lat lng radius ev d = []"
  by (simp add: emitToLocation_def io_to_emit_def delivered_def locationKey_eq_iff_radius)

theorem emitToLocation_single_room_witness:
  "emitToLocation (Some dispatch_state) 40 (- 74) (JNum 50) ''new-job'' (External ''job 99'')
     = [Emit {3} ''new-job'' (External ''job 99'')]
   \<and> delivered 3 ''new-job''
        (emitToLocation (Some dispatch_state) 40 (- 74) (JNum 50) ''new-job'' (External ''job 99''))
   \<and> \<not> delivered 2 ''new-job''
        (emitToLocation (Some dispatch_state) 40 (- 74) (JNum 50) ''new-job'' (External ''job 99''))"
proof -
  have r: "rooms dispatch_state (locationKey 40 (- 74) (JNum 50)) = {3}"
    by (simp add: dispatch_state_def render_defs)
  from emitToLocation_single_room [of dispatch_state 40 "- 74" "JNum 50" "''new-job''" "External ''job 99''"] r
  show ?thesis by (simp add: delivered_def)
qed

subsection \<open>C8: the admin channel\<close>

text \<open>
  Claim C8 asks that an admin-capable connection be placed into the room that
  \<^verbatim>\<open>broadcastToAdmins\<close> targets. No handler ever joins a socket to the room
  \<^verbatim>\<open>admin\<close>: in every state the server can reach from its start, an admin broadcast has
  no recipient, whoever is connected.
\<close>

theorem admin_broadcast_reaches_nobody:
  assumes "run env initial_server inputs = Inr (st, acts)"
  shows "broadcastToAdmins (Some st) ev d = [Emit {} ev d]"
  using reachable_admin_room_empty [OF assms]
  by (simp add: broadcastToAdmins_def io_to_emit_def)

theorem admin_broadcast_reaches_nobody_witness:
  "sockets chat_state 4 = Some ada \<and> userRole ada = JStr ''admin'' \<and> 4 \<in> rooms chat_state ''user:40''
   \<and> broadcastToAdmins (Some chat_state) ''alert'' (External ''dispute opened'')
        = [Emit {} ''alert'' (External ''dispute opened'')]
   \<and> \<not> delivered 4 ''alert'' (broadcastToAdmins (Some chat_state) ''alert'' (External ''dispute opened''))"
proof -
  have "sockets chat_state 4 = Some ada \<and> userRole ada = JStr ''admin'' \<and> 4 \<in> rooms chat_state ''user:40''"
    by (simp add: chat_state_def ada_def)
  with admin_broadcast_reaches_nobody [OF chat_state_reachable, of "''alert''" "External ''dispute opened''"]
  show ?thesis by (simp add: delivered_def)
qed

subsection \<open>C9: a message that cannot be saved\<close>

text \<open>
  Claim C9. When \<^verbatim>\<open>saveMessage\<close> rejects, the \<^verbatim>\<open>send-message\<close> handler emits nothing
  but one \<^verbatim>\<open>error\<close> event to the sender, and leaves the server state as it was; whatever
  inputs follow, from this or any other connection, are processed exactly as they would
  have been without the failed event.
\<close>

theorem save_failure_isolated:
  assumes "sockets st A = Some sock"
    and "ChatService env = Some cs"
    and "verifyChatAccess cs (sm_jobId d) (userId sock) (userRole sock) = Inr True"
    and "saveMessage cs \<lparr>draft_jobId = sm_jobId d, draft_senderId = userId sock,
           draft_senderName = userName sock, draft_message = sm_message d,
           draft_type = type_or_default (sm_type d), draft_timestamp = now\<rparr> = Inl e"
  shows "step env st (Event A now (SendMessage (Some d))) =
           Inr (st, [Call (VerifyChatAccess (sm_jobId d) (userId sock) (userRole sock)),
                     Call (SaveMessage \<lparr>draft_jobId = sm_jobId d, draft_senderId = userId sock,
                       draft_senderName = userName sock, draft_message = sm_message d,
                       draft_type = type_or_default (sm_type d), draft_timestamp = now\<rparr>),
                     Emit {A} ''error'' (ErrorMessage ''Failed to send message'')])
       \<and> run env st (Event A now (SendMessage (Some d)) # later) =
           (case run env st later of
              Inl x \<Rightarrow> Inl x
            | Inr (st2, acts2) \<Rightarrow>
                Inr (st2, [Call (VerifyChatAccess (sm_jobId d) (userId sock) (userRole sock)),
                     Call (SaveMessage \<lparr>draft_jobId = sm_jobId d, draft_senderId = userId sock,
                       draft_senderName = userName sock, draft_message = sm_message d,
                       draft_type = type_or_default (sm_type d), draft_timestamp = now\<rparr>),
                     Emit {A} ''error'' (ErrorMessage ''Failed to send message'')] @ acts2))"
proof -
  have s: "step env st (Event A now (SendMessage (Some d))) =
           Inr (st, [Call (VerifyChatAccess (sm_jobId d) (userId sock) (userRole sock)),
                     Call (SaveMessage \<lparr>draft_jobId = sm_jobId d, draft_senderId = userId sock,
                       draft_senderName = userName sock, draft_message = sm_message d,
                       draft_type = type_or_default (sm_type d), draft_timestamp = now\<rparr>),
                     Emit {A} ''error'' (ErrorMessage ''Failed to send message'')])"
    using assms by (simp add: on_send_message_def send_message_try_def socket_emit_def Let_def)
  show ?thesis
    by (simp only: s run.simps sum.case prod.case)
qed

theorem save_failure_isolated_witness:
  "step failing_env chat_state (Event 1 5 (SendMessage (Some hello))) =
       Inr (chat_state,
            [Call (VerifyChatAccess (JNum 7) (JNum 10) (JStr ''customer'')),
             Call (SaveMessage \<lparr>draft_jobId = JNum 7, draft_senderId = JNum 10,
                    draft_senderName = JStr ''Cara'', draft_message = JStr ''hello'',
                    draft_type = JStr ''text'', draft_timestamp = 5\<rparr>),
             Emit {1} ''error'' (ErrorMessage ''Failed to send message'')])
   \<and> run failing_env chat_state
        [Event 1 5 (SendMessage (Some hello)),
         Event 1 6 (Typing (Some \<lparr>ty_jobId = JNum 7, ty_isTyping = JBool True\<rparr>)),
         Event 2 7 (LeaveChat (JNum 7))] =
       Inr (chat_state\<lparr>rooms := (rooms chat_state)(''chat:7'' := {1})\<rparr>,
            [Call (VerifyChatAccess (JNum 7) (JNum 10) (JStr ''customer'')),
             Call (SaveMessage \<lparr>draft_jobId = JNum 7, draft_senderId = JNum 10,
                    draft_senderName = JStr ''Cara'', draft_message = JStr ''hello'',
                    draft_type = JStr ''text'', draft_timestamp = 5\<rparr>),
             Emit {1} ''error'' (ErrorMessage ''Failed to send message''),
             Emit {2} ''typing'' (TypingNotice (JNum 10) (JStr ''Cara'') (JBool True) 6),
             Emit {1} ''user-left'' (UserPresence (JNum 20) (JStr ''Dan'') 7)])"
proof -
  have a: "sockets chat_state 1 = Some cara" by (simp add: chat_state_def)
  have b: "ChatService failing_env = Some failing_chat" by (simp add: failing_env_def demo_env_def)
  have c: "verifyChatAccess failing_chat (sm_jobId hello) (userId cara) (userRole cara) = Inr True"
    by (simp add: failing_chat_def demo_chat_def cara_def hello_def)
  have d: "saveMessage failing_chat \<lparr>draft_jobId = sm_jobId hello, draft_senderId = userId cara,
           draft_senderName = userName cara, draft_message = sm_message hello,
           draft_type = type_or_default (sm_type hello), draft_timestamp = 5\<rparr>
         = Inl (Rejected ''database unavailable'')"
    by (simp add: failing_chat_def)
  have later: "run failing_env chat_state
        [Event 1 6 (Typing (Some \<lparr>ty_jobId = JNum 7, ty_isTyping = JBool True\<rparr>)),
         Event 2 7 (LeaveChat (JNum 7))] =
       Inr (chat_state\<lparr>rooms := (rooms chat_state)(''chat:7'' := {1})\<rparr>,
            [Emit {2} ''typing'' (TypingNotice (JNum 10) (JStr ''Cara'') (JBool True) 6),
             Emit {1} ''user-left'' (UserPresence (JNum 20) (JStr ''Dan'') 7)])"
    by (simp add: demo_defs handler_defs render_defs insert_Diff_if)
  from save_failure_isolated [OF a b c d, of "[Event 1 6 (Typing (Some \<lparr>ty_jobId = JNum 7, ty_isTyping = JBool True\<rparr>)),
         Event 2 7 (LeaveChat (JNum 7))]"] later
  show ?thesis
    by (simp add: cara_def hello_def type_or_default_def)
qed

subsection \<open>C10: the user id bound at the handshake\<close>

text \<open>
  Claim C10. For every non-empty token that \<^verbatim>\<open>jwt.verify\<close> accepts, the handshake
  succeeds. When the decoded payload has a \<^verbatim>\<open>userId\<close> field, its value is the socket's
  user id and the socket joins the user room named after it. When the payload has no such
  field, as the payload \<^verbatim>\<open>{ id, email, role }\<close> signed by the login and register routes,
  the user id is \<^verbatim>\<open>undefined\<close> and the room is \<^verbatim>\<open>user:undefined\<close>.
\<close>

theorem handshake_binds_userId_field:
  assumes "s \<noteq> []"
    and "jwt_verify env s = Inr decoded"
    and "sockets st sid = None"
  shows "\<exists>st'. step env st (Connect sid (JStr s)) = Inr (st', [])
           \<and> (\<forall>v. decoded ''userId'' = Some v \<longrightarrow>
                map_option userId (sockets st' sid) = Some v \<and> sid \<in> rooms st' (''user:'' @ to_string v))
           \<and> (decoded ''userId'' = None \<longrightarrow>
                map_option userId (sockets st' sid) = Some JUndefined \<and> sid \<in> rooms st' ''user:undefined'')
           \<and> map_option userId (sockets st' sid) = Some (field decoded ''userId'')
           \<and> sid \<in> rooms st' (''user:'' @ to_string (field decoded ''userId''))
           \<and> decoded_login_token u iat ''userId'' = None"
proof -
  have "sid \<notin> dom (sockets st)" using assms(3) by auto
  then show ?thesis
    using assms(1,2)
    by (auto simp: authenticate_def on_connection_def socket_join_def field_def
          decoded_login_token_def login_token_payload_def)
qed

theorem handshake_binds_userId_field_witness:
  "(\<exists>st'. step demo_env initial_server (Connect 1 (JStr ''token-login'')) = Inr (st', [])
      \<and> map_option userId (sockets st' 1) = Some JUndefined
      \<and> 1 \<in> rooms st' ''user:undefined'')
   \<and> (\<exists>st'. step demo_env initial_server (Connect 1 (JStr ''token-cara'')) = Inr (st', [])
      \<and> map_option userId (sockets st' 1) = Some (JNum 10)
      \<and> 1 \<in> rooms st' ''user:10'')"
proof

  have a: "''token-login'' \<noteq> []" by simp
  have b: "jwt_verify demo_env ''token-login'' = Inr (decoded_login_token
               \<lparr>user_id = JNum 10, user_email = JStr ''cara@example.org'', user_role = JStr ''customer''\<rparr> 1000)"
    by (simp add: demo_env_def demo_verify_def)
  have c: "sockets initial_server 1 = None" by (simp add: initial_server_def)
  have d: "decoded_login_token
               \<lparr>user_id = JNum 10, user_email = JStr ''cara@example.org'', user_role = JStr ''customer''\<rparr> 1000 ''userId'' = None"
    by (simp add: decoded_login_token_def login_token_payload_def)
  from handshake_binds_userId_field [OF a b c] obtain st' where
    "step demo_env initial_server (Connect 1 (JStr ''token-login'')) = Inr (st', [])"
    and "decoded_login_token
           \<lparr>user_id = JNum 10, user_email = JStr ''cara@example.org'', user_role = JStr ''customer''\<rparr> 1000 ''userId'' = None
         \<longrightarrow> map_option userId (sockets st' 1) = Some JUndefined \<and> 1 \<in> rooms st' ''user:undefined''"
    by blast
  with d show "\<exists>st'. step demo_env initial_server (Connect 1 (JStr ''token-login'')) = Inr (st', [])
      \<and> map_option userId (sockets st' 1) = Some JUndefined
      \<and> 1 \<in> rooms st' ''user:undefined''" by blast
next
  have a: "''token-cara'' \<noteq> []" by simp
  have b: "jwt_verify demo_env ''token-cara'' =
      Inr [''userId'' \<mapsto> JNum 10, ''role'' \<mapsto> JStr ''customer'', ''name'' \<mapsto> JStr ''Cara'']"
    by (simp add: demo_env_def demo_verify_def)
  have c: "sockets initial_server 1 = None" by (simp add: initial_server_def)
  from handshake_binds_userId_field [OF a b c] obtain st' where
    "step demo_env initial_server (Connect 1 (JStr ''token-cara'')) = Inr (st', [])"
    and "\<forall>v. [''userId'' \<mapsto> JNum 10, ''role'' \<mapsto> JStr ''customer'', ''name'' \<mapsto> JStr ''Cara''] ''userId'' = Some v \<longrightarrow>
                map_option userId (sockets st' 1) = Some v \<and> 1 \<in> rooms st' (''user:'' @ to_string v)"
    by blast
  then show "\<exists>st'. step demo_env initial_server (Connect 1 (JStr ''token-cara'')) = Inr (st', [])
      \<and> map_option userId (sockets st' 1) = Some (JNum 10)
      \<and> 1 \<in> rooms st' ''user:10''" by (auto simp: render_defs)
qed

end
